theory Spec2Isabelle
  imports Complex_Main
begin

section \<open>JavaScript values\<close>

text \<open>
  The values \<^verbatim>\<open>FastMCPClient.ts\<close> handles come out of axios and of \<^verbatim>\<open>JSON.parse\<close>:
  they are JSON values. A number carries the exact value of its double, an object is the
  list of its own properties in insertion order. A property read that finds nothing gives
  \<^verbatim>\<open>undefined\<close>, which is \<open>None\<close> here.
\<close>

datatype json =
    JNull
  | JBool bool
  | JNum rat
  | JStr string
  | JArr "json list"
  | JObj "(string \<times> json) list"

text \<open>Truthiness, as \<^verbatim>\<open>if (v)\<close>, \<^verbatim>\<open>v && ...\<close> and \<^verbatim>\<open>v || ...\<close> test it.\<close>

fun truthy :: "json \<Rightarrow> bool" where
  "truthy JNull = False"
| "truthy (JBool b) = b"
| "truthy (JNum r) = (r \<noteq> 0)"
| "truthy (JStr s) = (s \<noteq> [])"
| "truthy (JArr xs) = True"
| "truthy (JObj kvs) = True"

fun truthy_opt :: "json option \<Rightarrow> bool" where
  "truthy_opt None = False"
| "truthy_opt (Some v) = truthy v"

text \<open>
  \<^verbatim>\<open>v.k\<close> for the keys the client reads (\<^verbatim>\<open>error\<close>, \<^verbatim>\<open>result\<close>, \<^verbatim>\<open>content\<close>, \<^verbatim>\<open>text\<close>,
  \<^verbatim>\<open>results\<close>, \<^verbatim>\<open>data\<close>, \<^verbatim>\<open>message\<close>, \<^verbatim>\<open>code\<close>): no prototype of a primitive or of an array
  has them, so only an object can hold one. The read throws on \<^verbatim>\<open>null\<close>; the callers below
  test for \<open>JNull\<close> before they use this function.
\<close>

fun get_prop :: "json \<Rightarrow> string \<Rightarrow> json option" where
  "get_prop (JObj kvs) k = map_of kvs k"
| "get_prop v k = None"

text \<open>\<^verbatim>\<open>k in v\<close> for a value whose \<^verbatim>\<open>typeof\<close> is \<^verbatim>\<open>'object'\<close> and that is not \<^verbatim>\<open>null\<close>.\<close>

fun has_key :: "string \<Rightarrow> json \<Rightarrow> bool" where
  "has_key k (JObj kvs) = (map_of kvs k \<noteq> None)"
| "has_key k v = False"

text \<open>\<^verbatim>\<open>typeof v === 'object'\<close>: objects, arrays and \<^verbatim>\<open>null\<close>.\<close>

fun typeof_object :: "json \<Rightarrow> bool" where
  "typeof_object JNull = True"
| "typeof_object (JArr xs) = True"
| "typeof_object (JObj kvs) = True"
| "typeof_object v = False"

section \<open>String operations of the run time\<close>

text \<open>\<^verbatim>\<open>s.split('\n')\<close>: the pieces between line feeds; never the empty list.\<close>

fun split_nl :: "string \<Rightarrow> string list" where
  "split_nl [] = [[]]"
| "split_nl (c # cs) =
     (if c = CHR 0x0A then [] # split_nl cs
      else (case split_nl cs of [] \<Rightarrow> [[c]] | l # ls \<Rightarrow> (c # l) # ls))"

definition startsWith :: "string \<Rightarrow> string \<Rightarrow> bool" where
  "startsWith s p = (take (length p) s = p)"

definition substring :: "string \<Rightarrow> nat \<Rightarrow> string" where
  "substring s n = drop n s"

text \<open>\<^verbatim>\<open>s.includes(p)\<close>: \<open>p\<close> occurs in \<open>s\<close> as a contiguous piece.\<close>

fun str_includes :: "string \<Rightarrow> string \<Rightarrow> bool" where
  "str_includes [] p = (p = [])"
| "str_includes (c # cs) p = (startsWith (c # cs) p \<or> str_includes cs p)"

text \<open>
  White space and line terminators of ECMAScript, as far as an 8-bit character reaches:
  TAB, LF, VT, FF, CR, SP and NBSP.
\<close>

definition is_space :: "char \<Rightarrow> bool" where
  "is_space c = (c \<in> {CHR 0x09, CHR 0x0A, CHR 0x0B, CHR 0x0C, CHR 0x0D, CHR 0x20, CHR 0xA0})"

definition trim :: "string \<Rightarrow> string" where
  "trim s = rev (dropWhile is_space (rev (dropWhile is_space s)))"

text \<open>
  \<^verbatim>\<open>parseInt(s)\<close> with no radix: leading white space is skipped, a sign is read, a prefix
  \<^verbatim>\<open>0x\<close> selects base 16, and the longest run of digits is the value; no digit at all
  gives \<^verbatim>\<open>NaN\<close>, which is \<open>None\<close>.
\<close>

definition digit_value :: "nat \<Rightarrow> char \<Rightarrow> nat option" where
  "digit_value radix c =
     (let n = (of_char c :: nat) in
      if 48 \<le> n \<and> n \<le> 57 then Some (n - 48)
      else if radix = 16 \<and> 97 \<le> n \<and> n \<le> 102 then Some (n - 87)
      else if radix = 16 \<and> 65 \<le> n \<and> n \<le> 70 then Some (n - 55)
      else None)"

fun digits_prefix :: "nat \<Rightarrow> string \<Rightarrow> nat list" where
  "digits_prefix radix [] = []"
| "digits_prefix radix (c # cs) =
     (case digit_value radix c of None \<Rightarrow> [] | Some d \<Rightarrow> d # digits_prefix radix cs)"

definition digits_value :: "nat \<Rightarrow> nat list \<Rightarrow> nat" where
  "digits_value radix ds = foldl (\<lambda>a d. a * radix + d) 0 ds"

definition parse_sign :: "string \<Rightarrow> bool \<times> string" where
  "parse_sign s =
     (case s of
        [] \<Rightarrow> (False, [])
      | c # r \<Rightarrow> if c = CHR ''-'' then (True, r) else if c = CHR ''+'' then (False, r) else (False, s))"

definition parse_radix :: "string \<Rightarrow> nat \<times> string" where
  "parse_radix s =
     (if startsWith s ''0x'' \<or> startsWith s ''0X'' then (16, drop 2 s) else (10, s))"

definition parseInt :: "string \<Rightarrow> int option" where
  "parseInt s =
     (case parse_sign (dropWhile is_space s) of
        (neg, s1) \<Rightarrow>
          (case parse_radix s1 of
             (radix, s2) \<Rightarrow>
               (case digits_prefix radix s2 of
                  [] \<Rightarrow> None
                | d # ds \<Rightarrow>
                    Some (if neg then - int (digits_value radix (d # ds))
                          else int (digits_value radix (d # ds))))))"

text \<open>
  \<^verbatim>\<open>n.toString()\<close> for an integer \<open>n\<close> below \<open>10^21\<close> in absolute value, which every
  reading of the clock is: its decimal digits, after a minus sign when it is negative.
\<close>

definition digit_char :: "nat \<Rightarrow> char" where
  "digit_char d = char_of (48 + d)"

fun digits10 :: "nat \<Rightarrow> string" where
  "digits10 n = (if n < 10 then [digit_char n] else digits10 (n div 10) @ [digit_char (n mod 10)])"

declare digits10.simps [simp del]

definition Number_toString :: "int \<Rightarrow> string" where
  "Number_toString n = (if n < 0 then CHR ''-'' # digits10 (nat (- n)) else digits10 (nat n))"

section \<open>The client, the browser and the server\<close>

text \<open>
  What \<^verbatim>\<open>callTool\<close> and \<^verbatim>\<open>initializeAuth\<close> throw. Every failure of the source is an
  \<^verbatim>\<open>Error\<close> built from a message template; a constructor stands for a template and
  carries the values the template interpolates.
  \<^item> \<open>TypeError\<close>, \<open>SyntaxError\<close>: thrown by the run time, on a property read of \<^verbatim>\<open>null\<close>, on
    \<^verbatim>\<open>in\<close> applied to a primitive, on a call of what is no function; by \<^verbatim>\<open>JSON.parse\<close>.
  \<^item> \<open>JsonRpcError message code\<close>: lines 160 and 193, ``JSON-RPC Error: message (Code: code)''.
  \<^item> \<open>SSEParseFailure cause\<close>: line 181, ``Failed to parse SSE response: cause''.
  \<^item> \<open>NoDataLine\<close>: line 184, ``No data line found in SSE response''.
  \<^item> \<open>NetworkFailure baseUrl\<close>: line 207; \<open>HttpStatusFailure status statusText data\<close>: lines
    220 to 224; \<open>NoResponse baseUrl\<close>: line 226.
  \<^item> \<open>ToolCallFailure toolName cause\<close>: line 230, ``Failed to call tool toolName: cause'';
    \<open>AxiosFailure message\<close> is the cause when it is an error of axios that lines 206 to 227
    let pass.
  \<^item> \<open>TokenRequired\<close>: line 94; \<open>AuthInitFailure cause\<close>: line 105, ``Failed to initialize
    OAuth authentication: cause''.
\<close>

datatype failure =
    TypeError
  | SyntaxError
  | JsonRpcError "json option" "json option"
  | SSEParseFailure failure
  | NoDataLine
  | AxiosFailure string
  | NetworkFailure string
  | HttpStatusFailure int string json
  | NoResponse string
  | ToolCallFailure string failure
  | TokenRequired
  | AuthInitFailure failure

text \<open>An error axios rejects with: its code, message, response (status, status text, data) and whether a request was made.\<close>

record axios_error =
  ax_code :: "string option"
  ax_message :: string
  ax_response :: "(int \<times> string \<times> json) option"
  ax_request :: bool

datatype http_outcome = HttpOk json | HttpFail axios_error

text \<open>
  What the client does that the outside can see, in order: \<^verbatim>\<open>initializeAuth\<close> is entered
  and reads the storage, the user is prompted, a POST of a tool call leaves with or without
  a bearer token, a GET of the root leaves.
\<close>

datatype event =
    InitAuth
  | Prompt
  | Post "string option" string json
  | Get "string option"

text \<open>The client object (\<open>baseUrl\<close>, \<open>accessToken\<close>) and the browser's \<^verbatim>\<open>localStorage\<close>.\<close>

record world =
  baseUrl :: string
  accessToken :: "string option"
  localStorage :: "string \<Rightarrow> string option"
  trace :: "event list"

text \<open>
  What the outside answers during one call: the clock when the stored expiry is compared
  and when the new expiry is written, the user's answer to \<^verbatim>\<open>prompt\<close> (\<open>None\<close> when
  cancelled), the outcome of the POST and whether the GET of the root succeeds.
\<close>

record env =
  now_check :: int
  now_store :: int
  prompt_answer :: "string option"
  post_outcome :: http_outcome
  get_ok :: bool

text \<open>
  Operations of the JavaScript run time the client reaches with values of any type:
  \<^verbatim>\<open>JSON.parse\<close> (\<open>None\<close>: it throws a \<^verbatim>\<open>SyntaxError\<close>), the conversion of a value that is
  not a string to a string (\<open>None\<close>: it throws), and the comparison \<^verbatim>\<open>v > 0\<close> for a value
  that is not a number (\<open>None\<close>: the conversion throws).
\<close>

record platform =
  JSON_parse :: "string \<Rightarrow> json option"
  ToString :: "json \<Rightarrow> string option"
  GreaterThanZero :: "json \<Rightarrow> bool option"

definition token_key :: string where
  "token_key = ''fastmcp_access_token''"

definition expiry_key :: string where
  "expiry_key = ''fastmcp_token_expiry''"

text \<open>A string or \<^verbatim>\<open>null\<close> is truthy when it is a string that is not empty.\<close>

fun str_truthy :: "string option \<Rightarrow> bool" where
  "str_truthy None = False"
| "str_truthy (Some s) = (s \<noteq> [])"

text \<open>\<^verbatim>\<open>now < parseInt(tokenExpiry)\<close>; a comparison with \<^verbatim>\<open>NaN\<close> is false.\<close>

fun before_expiry :: "int \<Rightarrow> string option \<Rightarrow> bool" where
  "before_expiry now None = False"
| "before_expiry now (Some t) = (case parseInt t of None \<Rightarrow> False | Some x \<Rightarrow> now < x)"

definition log_event :: "event \<Rightarrow> world \<Rightarrow> world" where
  "log_event ev w = w\<lparr>trace := trace w @ [ev]\<rparr>"

text \<open>\<^verbatim>\<open>initializeAuth\<close>, lines 70 to 107.\<close>

definition initializeAuth :: "env \<Rightarrow> world \<Rightarrow> (failure + unit) \<times> world" where
  "initializeAuth e w =
     (let w0 = log_event InitAuth w;
          storedToken = localStorage w0 token_key;
          tokenExpiry = localStorage w0 expiry_key
      in if str_truthy storedToken \<and> str_truthy tokenExpiry \<and> before_expiry (now_check e) tokenExpiry
         then (Inr (), w0\<lparr>accessToken := storedToken\<rparr>)
         else
           (let w1 = log_event Prompt w0 in
            case prompt_answer e of
              None \<Rightarrow> (Inl (AuthInitFailure TokenRequired), w1)
            | Some userToken \<Rightarrow>
                if userToken = [] \<or> trim userToken = []
                then (Inl (AuthInitFailure TokenRequired), w1)
                else (Inr (),
                      w1\<lparr>accessToken := Some (trim userToken),
                         localStorage := (localStorage w1)
                           (token_key \<mapsto> trim userToken,
                            expiry_key \<mapsto> Number_toString (now_store e + 3600000))\<rparr>)))"

text \<open>\<^verbatim>\<open>clearAuth\<close>, lines 328 to 333, and \<^verbatim>\<open>close\<close>, lines 335 to 338.\<close>

definition clearAuth :: "world \<Rightarrow> world" where
  "clearAuth w =
     w\<lparr>localStorage := (localStorage w)(token_key := None, expiry_key := None),
       accessToken := None\<rparr>"

definition close :: "world \<Rightarrow> world" where
  "close w = w\<lparr>accessToken := None\<rparr>"

section \<open>Calling a tool\<close>

text \<open>The request interceptor, lines 57 to 63: the bearer header when a token is held.\<close>

definition auth_header :: "world \<Rightarrow> string option" where
  "auth_header w = (if str_truthy (accessToken w) then accessToken w else None)"

text \<open>Lines 110 to 112 of \<^verbatim>\<open>callTool\<close>.\<close>

definition ensure_auth :: "env \<Rightarrow> world \<Rightarrow> (failure + unit) \<times> world" where
  "ensure_auth e w = (if \<not> str_truthy (accessToken w) then initializeAuth e w else (Inr (), w))"

text \<open>Lines 143 to 151: the rest of the first line that starts with \<^verbatim>\<open>data: \<close>, or the empty string.\<close>

definition sse_data_line :: "string \<Rightarrow> string" where
  "sse_data_line body =
     (case find (\<lambda>line. startsWith line ''data: '') (split_nl body) of
        None \<Rightarrow> []
      | Some line \<Rightarrow> substring line 6)"

text \<open>\<^verbatim>\<open>JSON.parse(v)\<close> for a value that need not be a string.\<close>

definition parse_value :: "platform \<Rightarrow> json \<Rightarrow> failure + json" where
  "parse_value p v =
     (case (case v of JStr s \<Rightarrow> Some s | _ \<Rightarrow> ToString p v) of
        None \<Rightarrow> Inl TypeError
      | Some s \<Rightarrow> (case JSON_parse p s of None \<Rightarrow> Inl SyntaxError | Some j \<Rightarrow> Inr j))"

text \<open>
  Lines 163 to 176: the truthy \<^verbatim>\<open>text\<close> of the first element of \<^verbatim>\<open>result.content\<close>, when
  there is one. Reading \<^verbatim>\<open>text\<close> of a \<^verbatim>\<open>null\<close> element throws.
\<close>

definition first_content_text :: "json \<Rightarrow> failure + json option" where
  "first_content_text parsedSSE =
     (case get_prop parsedSSE ''result'' of
        None \<Rightarrow> Inr None
      | Some res \<Rightarrow>
          if truthy res \<and> truthy_opt (get_prop res ''content'') then
            (case get_prop res ''content'' of
               Some (JArr (firstContent # rest)) \<Rightarrow>
                 if firstContent = JNull then Inl TypeError
                 else (case get_prop firstContent ''text'' of
                         None \<Rightarrow> Inr None
                       | Some t \<Rightarrow> if truthy t then Inr (Some t) else Inr None)
             | _ \<Rightarrow> Inr None)
          else Inr None)"

text \<open>Lines 163 to 178: the payload of an envelope that carries no error.\<close>

definition sse_payload :: "platform \<Rightarrow> json \<Rightarrow> failure + json" where
  "sse_payload p parsedSSE =
     (case first_content_text parsedSSE of
        Inl err \<Rightarrow> Inl err
      | Inr (Some t) \<Rightarrow> parse_value p t
      | Inr None \<Rightarrow>
          (case get_prop parsedSSE ''result'' of
             None \<Rightarrow> Inr parsedSSE
           | Some res \<Rightarrow> if truthy res then Inr res else Inr parsedSSE))"

text \<open>Lines 156 to 178, the body of the inner \<^verbatim>\<open>try\<close>: what it returns or throws.\<close>

definition sse_try :: "platform \<Rightarrow> string \<Rightarrow> failure + json" where
  "sse_try p dataLine =
     (case JSON_parse p dataLine of
        None \<Rightarrow> Inl SyntaxError
      | Some parsedSSE \<Rightarrow>
          if parsedSSE = JNull then Inl TypeError
          else (case get_prop parsedSSE ''error'' of
                  None \<Rightarrow> sse_payload p parsedSSE
                | Some err \<Rightarrow>
                    if truthy err
                    then Inl (JsonRpcError (get_prop err ''message'') (get_prop err ''code''))
                    else sse_payload p parsedSSE))"

text \<open>Lines 153 to 185: the inner \<^verbatim>\<open>catch\<close> rethrows whatever the \<^verbatim>\<open>try\<close> threw as a parse failure.\<close>

definition read_sse :: "platform \<Rightarrow> string \<Rightarrow> failure + json" where
  "read_sse p body =
     (let dataLine = sse_data_line body in
      if dataLine \<noteq> [] then
        (case sse_try p dataLine of
           Inl parseError \<Rightarrow> Inl (SSEParseFailure parseError)
         | Inr v \<Rightarrow> Inr v)
      else Inl NoDataLine)"

text \<open>
  Lines 189 to 200, for a body that is not a string. \<^verbatim>\<open>'result' in v\<close> throws for a
  value that is not an object.
\<close>

definition read_structured :: "json \<Rightarrow> failure + json" where
  "read_structured responseData =
     (if typeof_object responseData \<and> responseData \<noteq> JNull \<and> has_key ''error'' responseData then
        (case get_prop responseData ''error'' of
           None \<Rightarrow> Inl TypeError
         | Some errorData \<Rightarrow>
             if errorData = JNull then Inl TypeError
             else Inl (JsonRpcError (get_prop errorData ''message'') (get_prop errorData ''code'')))
      else
        (case responseData of
           JObj kvs \<Rightarrow> (case map_of kvs ''result'' of None \<Rightarrow> Inr responseData | Some res \<Rightarrow> Inr res)
         | JArr xs \<Rightarrow> Inr responseData
         | _ \<Rightarrow> Inl TypeError))"

text \<open>Lines 140 to 200: what the outer \<^verbatim>\<open>try\<close> returns or throws once the response is there.\<close>

definition read_response :: "platform \<Rightarrow> json \<Rightarrow> failure + json" where
  "read_response p d = (case d of JStr body \<Rightarrow> read_sse p body | _ \<Rightarrow> read_structured d)"

text \<open>Lines 205 to 230: the outer \<^verbatim>\<open>catch\<close> on an error of axios.\<close>

definition axios_failure :: "string \<Rightarrow> world \<Rightarrow> axios_error \<Rightarrow> failure" where
  "axios_failure toolName w err =
     (if ax_code err = Some ''NETWORK_ERROR'' \<or> str_includes (ax_message err) ''Network Error''
      then NetworkFailure (baseUrl w)
      else (case ax_response err of
              Some (status, statusText, responseData) \<Rightarrow> HttpStatusFailure status statusText responseData
            | None \<Rightarrow>
                if ax_request err then NoResponse (baseUrl w)
                else ToolCallFailure toolName (AxiosFailure (ax_message err))))"

text \<open>\<^verbatim>\<open>callTool\<close>, lines 109 to 232. A failure of \<^verbatim>\<open>initializeAuth\<close> leaves before the \<^verbatim>\<open>try\<close>.\<close>

definition callTool :: "platform \<Rightarrow> env \<Rightarrow> string \<Rightarrow> json \<Rightarrow> world \<Rightarrow> (failure + json) \<times> world" where
  "callTool p e toolName parameters w =
     (case ensure_auth e w of
        (Inl err, w1) \<Rightarrow> (Inl err, w1)
      | (Inr u, w1) \<Rightarrow>
          (let w2 = log_event (Post (auth_header w1) toolName parameters) w1 in
           case post_outcome e of
             HttpFail err \<Rightarrow> (Inl (axios_failure toolName w2 err), w2)
           | HttpOk d \<Rightarrow>
               (case read_response p d of
                  Inl err \<Rightarrow> (Inl (ToolCallFailure toolName err), w2)
                | Inr v \<Rightarrow> (Inr v, w2))))"

section \<open>Searching\<close>

text \<open>Line 280: \<^verbatim>\<open>result.results && Array.isArray(result.results)\<close>.\<close>

definition top_results :: "json \<Rightarrow> json list option" where
  "top_results result = (case get_prop result ''results'' of Some (JArr xs) \<Rightarrow> Some xs | _ \<Rightarrow> None)"

text \<open>Line 284: \<^verbatim>\<open>result.data && result.data.results\<close>, the value when it is truthy.\<close>

definition nested_results :: "json \<Rightarrow> json option" where
  "nested_results result =
     (case get_prop result ''data'' of
        None \<Rightarrow> None
      | Some d \<Rightarrow>
          if truthy d then
            (case get_prop d ''results'' of
               None \<Rightarrow> None
             | Some r \<Rightarrow> if truthy r then Some r else None)
          else None)"

text \<open>Lines 275 to 302: the value of the variable \<^verbatim>\<open>results\<close> after the chain of tests.\<close>

definition pick_results :: "json \<Rightarrow> json" where
  "pick_results result =
     (if truthy result \<and> typeof_object result then
        (case top_results result of
           Some xs \<Rightarrow> JArr xs
         | None \<Rightarrow>
             (case nested_results result of
                Some r \<Rightarrow> r
              | None \<Rightarrow>
                  (case result of
                     JArr xs \<Rightarrow> JArr xs
                   | _ \<Rightarrow> if truthy_opt (get_prop result ''content'') then JArr [result] else JArr [])))
      else JArr [])"

text \<open>\<^verbatim>\<open>v > 0\<close>; \<open>None\<close> when the conversion to a number throws.\<close>

definition gt_zero :: "platform \<Rightarrow> json \<Rightarrow> bool option" where
  "gt_zero p v =
     (case v of
        JNum r \<Rightarrow> Some (0 < r)
      | JBool b \<Rightarrow> Some b
      | JNull \<Rightarrow> Some False
      | _ \<Rightarrow> GreaterThanZero p v)"

text \<open>Line 308, \<^verbatim>\<open>results.length > 0\<close>; \<open>None\<close> when it throws.\<close>

definition length_gt_zero :: "platform \<Rightarrow> json \<Rightarrow> bool option" where
  "length_gt_zero p results =
     (case results of
        JArr xs \<Rightarrow> Some (xs \<noteq> [])
      | JStr s \<Rightarrow> Some (s \<noteq> [])
      | JObj kvs \<Rightarrow> (case map_of kvs ''length'' of None \<Rightarrow> Some False | Some v \<Rightarrow> gt_zero p v)
      | JNull \<Rightarrow> None
      | _ \<Rightarrow> Some False)"

text \<open>
  Lines 308 to 321. The loop that prints the results reads \<^verbatim>\<open>content\<close> of every element,
  which throws on \<^verbatim>\<open>null\<close>; only an array has \<^verbatim>\<open>forEach\<close>.
\<close>

definition return_results :: "platform \<Rightarrow> json \<Rightarrow> failure + json list" where
  "return_results p results =
     (case length_gt_zero p results of
        None \<Rightarrow> Inl TypeError
      | Some False \<Rightarrow> Inr []
      | Some True \<Rightarrow>
          (case results of
             JArr xs \<Rightarrow> if JNull \<in> set xs then Inl TypeError else Inr xs
           | _ \<Rightarrow> Inl TypeError))"

text \<open>
  \<^verbatim>\<open>search\<close>, lines 262 to 326: the arguments of the tool call (lines 264 to 267), and the
  function; its \<^verbatim>\<open>catch\<close> rethrows the error it caught.
\<close>

definition search_args :: "string \<Rightarrow> string \<Rightarrow> json" where
  "search_args searchText searchType =
     JObj [(''search_text'', JStr searchText), (''search_type'', JStr searchType)]"

definition search :: "platform \<Rightarrow> env \<Rightarrow> string \<Rightarrow> string \<Rightarrow> world \<Rightarrow> (failure + json list) \<times> world" where
  "search p e searchText searchType w =
     (case callTool p e ''search'' (search_args searchText searchType) w of
        (Inl err, w1) \<Rightarrow> (Inl err, w1)
      | (Inr result, w1) \<Rightarrow> (return_results p (pick_results result), w1))"

text \<open>\<^verbatim>\<open>testConnection\<close>, lines 234 to 260.\<close>

definition testConnection :: "platform \<Rightarrow> env \<Rightarrow> world \<Rightarrow> (failure + bool) \<times> world" where
  "testConnection p e w =
     (case search p e ''test connection'' ''hybrid'' w of
        (Inr testResult, w1) \<Rightarrow> (Inr True, w1)
      | (Inl err, w1) \<Rightarrow>
          (let w2 = log_event (Get (auth_header w1)) w1 in
           if get_ok e then (Inr True, w2) else (Inr False, w2)))"

section \<open>Notions the properties speak of\<close>

text \<open>The expiry \<^verbatim>\<open>localStorage\<close> holds, as \<^verbatim>\<open>initializeAuth\<close> reads it.\<close>

definition stored_expiry :: "world \<Rightarrow> int option" where
  "stored_expiry w = (case localStorage w expiry_key of None \<Rightarrow> None | Some t \<Rightarrow> parseInt t)"

text \<open>The test of line 77: a stored token and a stored expiry that lies after \<open>now\<close>.\<close>

definition stored_valid :: "int \<Rightarrow> world \<Rightarrow> bool" where
  "stored_valid now w =
     (str_truthy (localStorage w token_key) \<and> str_truthy (localStorage w expiry_key) \<and>
      before_expiry now (localStorage w expiry_key))"

text \<open>The credential's expiry timestamp is in the past at \<open>now\<close>.\<close>

definition credential_expired :: "int \<Rightarrow> world \<Rightarrow> bool" where
  "credential_expired now w = (case stored_expiry w of None \<Rightarrow> False | Some x \<Rightarrow> x \<le> now)"

text \<open>
  The extraction as the specification words it: a top-level \<^verbatim>\<open>results\<close> array; else a
  nested \<^verbatim>\<open>data.results\<close> array; else the payload itself when it is an array; else the
  payload alone when it has a \<^verbatim>\<open>content\<close> field; else nothing.
\<close>

definition spec_results :: "json \<Rightarrow> json list" where
  "spec_results payload =
     (case get_prop payload ''results'' of
        Some (JArr xs) \<Rightarrow> xs
      | _ \<Rightarrow>
          (case (case get_prop payload ''data'' of None \<Rightarrow> None | Some d \<Rightarrow> get_prop d ''results'') of
             Some (JArr ys) \<Rightarrow> ys
           | _ \<Rightarrow>
               (case payload of
                  JArr zs \<Rightarrow> zs
                | _ \<Rightarrow> if has_key ''content'' payload then [payload] else [])))"

section \<open>Sample data\<close>

text \<open>The page right after it is loaded in a browser whose storage is empty.\<close>

definition fresh_world :: world where
  "fresh_world =
     \<lparr>baseUrl = ''https://escalationbot.fastmcp.app'', accessToken = None,
      localStorage = Map.empty, trace = []\<rparr>"

text \<open>The server answers with an empty result list.\<close>

definition empty_answer :: http_outcome where
  "empty_answer = HttpOk (JObj [(''result'', JObj [(''results'', JArr [])])])"

text \<open>The user types \<^verbatim>\<open>tok\<close> at time 0, and the token is stored at time 0.\<close>

definition env_first :: env where
  "env_first =
     \<lparr>now_check = 0, now_store = 0, prompt_answer = Some '' tok '',
      post_outcome = empty_answer, get_ok = True\<rparr>"

text \<open>Half an hour and two hours later; the user would cancel a prompt.\<close>

definition env_soon :: env where
  "env_soon =
     \<lparr>now_check = 1800000, now_store = 1800000, prompt_answer = None,
      post_outcome = empty_answer, get_ok = True\<rparr>"

definition env_late :: env where
  "env_late =
     \<lparr>now_check = 7200000, now_store = 7200000, prompt_answer = None,
      post_outcome = empty_answer, get_ok = True\<rparr>"

text \<open>The state \<^verbatim>\<open>initializeAuth\<close> leaves at time 0 when the user types \<^verbatim>\<open>tok\<close>.\<close>

definition world_held :: world where
  "world_held =
     \<lparr>baseUrl = ''https://escalationbot.fastmcp.app'', accessToken = Some ''tok'',
      localStorage = Map.empty(token_key \<mapsto> ''tok'', expiry_key \<mapsto> ''3600000''),
      trace = [InitAuth, Prompt]\<rparr>"

text \<open>
  The text of a JSON string: the string between double quotes, with a backslash before
  every double quote and backslash.
\<close>

definition json_quote :: "string \<Rightarrow> string" where
  "json_quote s =
     CHR 0x22 # concat (map (\<lambda>c. if c = CHR 0x22 \<or> c = CHR 0x5C then [CHR 0x5C, c] else [c]) s)
       @ [CHR 0x22]"

text \<open>JSON texts and the values \<^verbatim>\<open>JSON.parse\<close> gives for them.\<close>

definition error_text :: string where
  \<open>error_text = ''{"error":{"code":7,"message":"bad"}}''\<close>

definition error_value :: json where
  "error_value = JObj [(''error'', JObj [(''code'', JNum 7), (''message'', JStr ''bad'')])]"

definition inner_text :: string where
  \<open>inner_text = ''{"results":[{"content":"hello","score":0.9},{"content":"world","score":0.5}]}''\<close>

definition inner_results :: "json list" where
  "inner_results =
     [JObj [(''content'', JStr ''hello''), (''score'', JNum (9 / 10))],
      JObj [(''content'', JStr ''world''), (''score'', JNum (1 / 2))]]"

definition inner_value :: json where
  "inner_value = JObj [(''results'', JArr inner_results)]"

definition outer_text :: string where
  \<open>outer_text =
     ''{"result":{"content":[{"type":"text","text":'' @ json_quote inner_text @ ''}]}}''\<close>

definition outer_value :: json where
  "outer_value =
     JObj [(''result'',
       JObj [(''content'', JArr [JObj [(''type'', JStr ''text''), (''text'', JStr inner_text)]])])]"

text \<open>The same with \<^verbatim>\<open>null\<close> as the second result.\<close>

definition inner_null_text :: string where
  \<open>inner_null_text = ''{"results":[{"content":"hello","score":0.9},null]}''\<close>

definition inner_null_results :: "json list" where
  "inner_null_results = [JObj [(''content'', JStr ''hello''), (''score'', JNum (9 / 10))], JNull]"

definition inner_null_value :: json where
  "inner_null_value = JObj [(''results'', JArr inner_null_results)]"

definition outer_null_text :: string where
  \<open>outer_null_text =
     ''{"result":{"content":[{"type":"text","text":'' @ json_quote inner_null_text @ ''}]}}''\<close>

definition outer_null_value :: json where
  "outer_null_value =
     JObj [(''result'',
       JObj [(''content'',
         JArr [JObj [(''type'', JStr ''text''), (''text'', JStr inner_null_text)]])])]"

text \<open>
  A platform that agrees with the JavaScript run time on these five texts and rejects
  every other text; the examples below reach neither of the two conversions.
\<close>

definition sample_parse :: "string \<Rightarrow> json option" where
  "sample_parse s =
     (if s = error_text then Some error_value
      else if s = inner_text then Some inner_value
      else if s = outer_text then Some outer_value
      else if s = inner_null_text then Some inner_null_value
      else if s = outer_null_text then Some outer_null_value
      else None)"

definition sample_platform :: platform where
  "sample_platform =
     \<lparr>JSON_parse = sample_parse, ToString = (\<lambda>v. None), GreaterThanZero = (\<lambda>v. None)\<rparr>"

text \<open>An event stream with one event whose data is the text \<open>t\<close>.\<close>

definition sse_body :: "string \<Rightarrow> string" where
  "sse_body t = ''event: message'' @ [CHR 0x0A] @ ''data: '' @ t @ [CHR 0x0A, CHR 0x0A]"

text \<open>The call half an hour after the acquisition, with a given outcome of the POST.\<close>

definition env_answer :: "http_outcome \<Rightarrow> env" where
  "env_answer r = env_soon\<lparr>post_outcome := r\<rparr>"

text \<open>Two payloads that are single hits: one with an empty content, one with a content.\<close>

definition blank_hit :: json where
  "blank_hit = JObj [(''content'', JStr ''''), (''score'', JNum (9 / 10))]"

definition hello_hit :: json where
  "hello_hit = JObj [(''content'', JStr ''hello''), (''score'', JNum (9 / 10))]"

text \<open>The server cannot be reached; the GET of the root succeeds or fails as \<open>ping\<close> says.\<close>

definition network_down :: axios_error where
  "network_down =
     \<lparr>ax_code = Some ''ERR_NETWORK'', ax_message = ''Network Error'',
      ax_response = None, ax_request = True\<rparr>"

definition env_down :: "bool \<Rightarrow> env" where
  "env_down ping = env_soon\<lparr>post_outcome := HttpFail network_down, get_ok := ping\<rparr>"

section \<open>Facts about the string operations\<close>

lemma digit_value_space: "is_space c \<Longrightarrow> digit_value r c = None"
  by (auto simp: is_space_def digit_value_def)

lemma digit_value_sign: "digit_value r (CHR ''-'') = None" "digit_value r (CHR ''+'') = None"
  "digit_value 10 (CHR ''x'') = None" "digit_value 10 (CHR ''X'') = None"
  by (simp_all add: digit_value_def)

lemma digit_value_digit_char: "d < 10 \<Longrightarrow> digit_value 10 (digit_char d) = Some d"
  by (simp add: digit_value_def digit_char_def)

lemma digits_prefix_append:
  "\<forall>c\<in>set xs. digit_value r c \<noteq> None \<Longrightarrow>
   digits_prefix r (xs @ ys) = digits_prefix r xs @ digits_prefix r ys"
  by (induction xs) auto

lemma digits_value_snoc: "digits_value r (ds @ [d]) = digits_value r ds * r + d"
  by (simp add: digits_value_def)

lemma digits10_all_digits: "\<forall>c\<in>set (digits10 n). digit_value 10 c \<noteq> None"
proof (induction n rule: digits10.induct)
  case (1 n)
  show ?case
  proof (cases "n < 10")
    case True
    then show ?thesis by (simp add: digits10.simps digit_value_digit_char)
  next
    case False
    have "n mod 10 < 10" by simp
    with False 1 show ?thesis
      by (subst digits10.simps) (auto simp: digit_value_digit_char)
  qed
qed

lemma digits10_value: "digits_value 10 (digits_prefix 10 (digits10 n)) = n"
proof (induction n rule: digits10.induct)
  case (1 n)
  show ?case
  proof (cases "n < 10")
    case True
    then show ?thesis by (simp add: digits10.simps digit_value_digit_char digits_value_def)
  next
    case False
    have m: "n mod 10 < 10" by simp
    have "digits_prefix 10 (digits10 n) = digits_prefix 10 (digits10 (n div 10)) @ [n mod 10]"
      using False m
      by (subst digits10.simps)
         (simp add: digits_prefix_append digits10_all_digits digit_value_digit_char)
    with False 1 show ?thesis
      by (simp add: digits_value_snoc)
  qed
qed

lemma digits10_not_Nil: "digits10 n \<noteq> []"
  by (subst digits10.simps) simp

lemma digits_prefix_digits10_not_Nil: "digits_prefix 10 (digits10 n) \<noteq> []"
proof -
  obtain c cs where cs: "digits10 n = c # cs"
    using digits10_not_Nil by (cases "digits10 n") auto
  have "c \<in> set (digits10 n)" by (simp add: cs)
  then have "digit_value 10 c \<noteq> None" using digits10_all_digits by blast
  then show ?thesis by (auto simp add: cs)
qed

lemma all_digits_no_hex:
  assumes "\<forall>c\<in>set s. digit_value 10 c \<noteq> None"
  shows "parse_radix s = (10, s)"
proof -
  have "\<not> startsWith s ''0x''"
  proof
    assume "startsWith s ''0x''"
    then have t: "take (length ''0x'') s = ''0x''" unfolding startsWith_def .
    have "CHR ''x'' \<in> set ''0x''" by simp
    then have "CHR ''x'' \<in> set (take (length ''0x'') s)" by (simp only: t)
    then have "CHR ''x'' \<in> set s" by (rule in_set_takeD)
    with assms show False by (auto simp: digit_value_sign)
  qed
  moreover have "\<not> startsWith s ''0X''"
  proof
    assume "startsWith s ''0X''"
    then have t: "take (length ''0X'') s = ''0X''" unfolding startsWith_def .
    have "CHR ''X'' \<in> set ''0X''" by simp
    then have "CHR ''X'' \<in> set (take (length ''0X'') s)" by (simp only: t)
    then have "CHR ''X'' \<in> set s" by (rule in_set_takeD)
    with assms show False by (auto simp: digit_value_sign)
  qed
  ultimately show ?thesis by (simp add: parse_radix_def)
qed

lemma parseInt_digits10: "parseInt (digits10 n) = Some (int n)"
proof -
  obtain c cs where cs: "digits10 n = c # cs"
    using digits10_not_Nil by (cases "digits10 n") auto
  have "c \<in> set (digits10 n)" by (simp add: cs)
  then have c: "digit_value 10 c \<noteq> None" using digits10_all_digits by blast
  then have nsp: "\<not> is_space c" using digit_value_space [of c 10] by auto
  have nsg: "c \<noteq> CHR ''-''" "c \<noteq> CHR ''+''" using c digit_value_sign by auto
  have 1: "dropWhile is_space (digits10 n) = digits10 n"
    using nsp by (simp add: cs)
  have 2: "parse_sign (digits10 n) = (False, digits10 n)"
    using nsg by (simp add: cs parse_sign_def)
  have 3: "parse_radix (digits10 n) = (10, digits10 n)"
    by (rule all_digits_no_hex) (rule digits10_all_digits)
  obtain d ds where ds: "digits_prefix 10 (digits10 n) = d # ds"
    using digits_prefix_digits10_not_Nil by (cases "digits_prefix 10 (digits10 n)") auto
  have "digits_value 10 (d # ds) = n" using digits10_value [of n] by (simp only: ds)
  then show ?thesis
    by (simp only: parseInt_def 1 2 3 ds prod.case list.case) simp
qed

lemma parseInt_minus_digits10: "parseInt (CHR ''-'' # digits10 n) = Some (- int n)"
proof -
  have sp: "\<not> is_space (CHR ''-'')" by (simp add: is_space_def)
  have 1: "dropWhile is_space (CHR ''-'' # digits10 n) = CHR ''-'' # digits10 n"
    using sp by simp
  have 2: "parse_sign (CHR ''-'' # digits10 n) = (True, digits10 n)"
    by (simp add: parse_sign_def)
  have 3: "parse_radix (digits10 n) = (10, digits10 n)"
    by (rule all_digits_no_hex) (rule digits10_all_digits)
  obtain d ds where ds: "digits_prefix 10 (digits10 n) = d # ds"
    using digits_prefix_digits10_not_Nil by (cases "digits_prefix 10 (digits10 n)") auto
  have "digits_value 10 (d # ds) = n" using digits10_value [of n] by (simp only: ds)
  then show ?thesis
    by (simp only: parseInt_def 1 2 3 ds prod.case list.case) simp
qed

lemma parseInt_Number_toString: "parseInt (Number_toString n) = Some n"
  by (simp add: Number_toString_def parseInt_digits10 parseInt_minus_digits10)

lemma Number_toString_not_Nil: "Number_toString n \<noteq> []"
  by (simp add: Number_toString_def digits10_not_Nil)

lemma parseInt_Nil: "parseInt [] = None"
  by (simp add: parseInt_def parse_sign_def parse_radix_def startsWith_def)

section \<open>Facts about the token life cycle\<close>

lemma keys_distinct: "token_key \<noteq> expiry_key"
  by (simp add: token_key_def expiry_key_def)

lemma initializeAuth_unfold:
  "initializeAuth e w =
     (if stored_valid (now_check e) w
      then (Inr (), (log_event InitAuth w)\<lparr>accessToken := localStorage w token_key\<rparr>)
      else (case prompt_answer e of
              None \<Rightarrow> (Inl (AuthInitFailure TokenRequired), log_event Prompt (log_event InitAuth w))
            | Some userToken \<Rightarrow>
                if trim userToken = []
                then (Inl (AuthInitFailure TokenRequired), log_event Prompt (log_event InitAuth w))
                else (Inr (),
                      (log_event Prompt (log_event InitAuth w))
                        \<lparr>accessToken := Some (trim userToken),
                         localStorage := (localStorage w)
                           (token_key \<mapsto> trim userToken,
                            expiry_key \<mapsto> Number_toString (now_store e + 3600000))\<rparr>)))"
proof -
  have "trim [] = []" by (simp add: trim_def)
  then have "(u = [] \<or> trim u = []) = (trim u = [])" for u by auto
  then show ?thesis
    by (simp add: initializeAuth_def stored_valid_def log_event_def Let_def split: option.splits)
qed

lemma initializeAuth_stored:
  "stored_valid (now_check e) w \<Longrightarrow>
   initializeAuth e w = (Inr (), (log_event InitAuth w)\<lparr>accessToken := localStorage w token_key\<rparr>)"
  by (simp add: initializeAuth_unfold)

lemma initializeAuth_prompted:
  "\<not> stored_valid (now_check e) w \<Longrightarrow> prompt_answer e = Some a \<Longrightarrow> trim a \<noteq> [] \<Longrightarrow>
   initializeAuth e w =
     (Inr (),
      (log_event Prompt (log_event InitAuth w))
        \<lparr>accessToken := Some (trim a),
         localStorage := (localStorage w)
           (token_key \<mapsto> trim a, expiry_key \<mapsto> Number_toString (now_store e + 3600000))\<rparr>)"
  by (simp add: initializeAuth_unfold)

lemma initializeAuth_Inr_cases:
  assumes "initializeAuth e w = (Inr u, w1)"
  shows "(stored_valid (now_check e) w \<and>
          w1 = (log_event InitAuth w)\<lparr>accessToken := localStorage w token_key\<rparr>) \<or>
         (\<exists>a. \<not> stored_valid (now_check e) w \<and> prompt_answer e = Some a \<and> trim a \<noteq> [] \<and>
          w1 = (log_event Prompt (log_event InitAuth w))
            \<lparr>accessToken := Some (trim a),
             localStorage := (localStorage w)
               (token_key \<mapsto> trim a, expiry_key \<mapsto> Number_toString (now_store e + 3600000))\<rparr>)"
proof (cases "stored_valid (now_check e) w")
  case True
  with assms show ?thesis by (simp add: initializeAuth_stored)
next
  case False
  show ?thesis
  proof (cases "prompt_answer e")
    case None
    with False assms show ?thesis
      by (simp add: initializeAuth_unfold)
  next
    case (Some a)
    show ?thesis
    proof (cases "trim a = []")
      case True
      with False Some assms show ?thesis
        by (simp add: initializeAuth_unfold)
    next
      case nonempty: False
      with False Some assms show ?thesis
        by (simp add: initializeAuth_prompted)
    qed
  qed
qed

lemma initializeAuth_Inl:
  assumes "initializeAuth e w = (Inl err, w1)"
  shows "err = AuthInitFailure TokenRequired \<and> \<not> stored_valid (now_check e) w \<and>
         w1 = log_event Prompt (log_event InitAuth w)"
  using assms
  by (auto simp add: initializeAuth_unfold split: if_splits option.splits)

lemma stored_valid_expiry:
  "stored_valid now w = (str_truthy (localStorage w token_key) \<and>
     (\<exists>x. stored_expiry w = Some x \<and> now < x))"
proof -
  have "str_truthy (localStorage w expiry_key)" if "stored_expiry w = Some x" for x
    using that by (auto simp: stored_expiry_def parseInt_Nil split: option.splits)
  then show ?thesis
    by (auto simp: stored_valid_def stored_expiry_def split: option.splits)
qed

lemma initializeAuth_after:
  assumes "initializeAuth e w = (Inr u, w1)"
  shows "accessToken w1 = localStorage w1 token_key \<and> str_truthy (localStorage w1 token_key) \<and>
         (\<exists>x. stored_expiry w1 = Some x)"
  using initializeAuth_Inr_cases [OF assms]
  by (auto simp: log_event_def keys_distinct stored_expiry_def parseInt_Number_toString
        stored_valid_expiry)

section \<open>The sample session\<close>

lemma toString_hour: "Number_toString 3600000 = ''3600000''"
  by (simp add: Number_toString_def digits10.simps digit_char_def char_of_eq_iff)

lemma trim_tok: "trim '' tok '' = ''tok''"
  by (simp add: trim_def is_space_def)

lemma world_held_reached: "initializeAuth env_first fresh_world = (Inr (), world_held)"
  by (simp add: initializeAuth_unfold stored_valid_def env_first_def fresh_world_def world_held_def
        log_event_def trim_tok toString_hour)

lemma world_held_expiry: "stored_expiry world_held = Some 3600000"
  by (simp add: stored_expiry_def world_held_def keys_distinct parseInt_def parse_sign_def
        parse_radix_def startsWith_def digit_value_def digits_value_def is_space_def)

section \<open>The token life cycle\<close>

text \<open>
  C8. \<^verbatim>\<open>clearAuth\<close> is idempotent: a second call changes nothing. It has no failing path;
  after every call the two storage entries are absent and the token in memory is \<^verbatim>\<open>null\<close>,
  and the log of requests and prompts is untouched. Called when nothing is stored and no
  token is held, it leaves the state as it was.
\<close>

theorem clearAuth_idempotent:
  "clearAuth (clearAuth w) = clearAuth w \<and>
   localStorage (clearAuth w) token_key = None \<and>
   localStorage (clearAuth w) expiry_key = None \<and>
   accessToken (clearAuth w) = None \<and>
   trace (clearAuth w) = trace w \<and>
   (accessToken w = None \<and> localStorage w token_key = None \<and> localStorage w expiry_key = None
      \<longrightarrow> clearAuth w = w)"
proof -
  have "(localStorage w)(token_key := None, expiry_key := None) = localStorage w"
    if "localStorage w token_key = None" "localStorage w expiry_key = None"
    using that by (auto simp: fun_eq_iff)
  then show ?thesis by (simp add: clearAuth_def)
qed

text \<open>The fresh page, and the page after an acquisition, cleared once and twice.\<close>

theorem clearAuth_idempotent_witness:
  "clearAuth fresh_world = fresh_world \<and>
   clearAuth (clearAuth world_held) = clearAuth world_held \<and>
   localStorage (clearAuth world_held) token_key = None \<and>
   localStorage (clearAuth world_held) expiry_key = None \<and>
   accessToken (clearAuth world_held) = None"
proof -
  have "accessToken fresh_world = None \<and> localStorage fresh_world token_key = None \<and>
        localStorage fresh_world expiry_key = None"
    by (simp add: fresh_world_def)
  with clearAuth_idempotent [of fresh_world] have "clearAuth fresh_world = fresh_world" by blast
  with clearAuth_idempotent [of world_held] show ?thesis by blast
qed

text \<open>
  C7. A stored token whose expiry lies after the time of the call is taken over as it is,
  with no prompt. A token the user types is stored with an expiry of exactly one hour
  (3600000 ms) after the time it is stored. After any successful \<^verbatim>\<open>initializeAuth\<close>, a
  second call before the stored expiry succeeds, logs no prompt and leaves the token in
  memory and the storage as the first call left them.
\<close>

theorem initializeAuth_twice:
  "(stored_valid (now_check e) w \<longrightarrow>
      initializeAuth e w =
        (Inr (), (log_event InitAuth w)\<lparr>accessToken := localStorage w token_key\<rparr>)) \<and>
   (\<not> stored_valid (now_check e) w \<and> prompt_answer e = Some a \<and> trim a \<noteq> [] \<longrightarrow>
      (\<exists>w'. initializeAuth e w = (Inr (), w') \<and> accessToken w' = Some (trim a) \<and>
            localStorage w' token_key = Some (trim a) \<and>
            stored_expiry w' = Some (now_store e + 3600000))) \<and>
   (initializeAuth e w = (Inr (), w1) \<longrightarrow>
      (\<exists>x. stored_expiry w1 = Some x \<and>
           (\<forall>e2. now_check e2 < x \<longrightarrow>
                 initializeAuth e2 w1 = (Inr (), log_event InitAuth w1))))"
proof (intro conjI impI)
  assume "stored_valid (now_check e) w"
  then show "initializeAuth e w =
        (Inr (), (log_event InitAuth w)\<lparr>accessToken := localStorage w token_key\<rparr>)"
    by (rule initializeAuth_stored)
next
  assume "\<not> stored_valid (now_check e) w \<and> prompt_answer e = Some a \<and> trim a \<noteq> []"
  then show "\<exists>w'. initializeAuth e w = (Inr (), w') \<and> accessToken w' = Some (trim a) \<and>
            localStorage w' token_key = Some (trim a) \<and>
            stored_expiry w' = Some (now_store e + 3600000)"
    by (simp add: initializeAuth_prompted log_event_def keys_distinct stored_expiry_def
          parseInt_Number_toString)
next
  assume ok: "initializeAuth e w = (Inr (), w1)"
  from initializeAuth_after [OF ok] obtain x where
    tok: "accessToken w1 = localStorage w1 token_key" "str_truthy (localStorage w1 token_key)"
    and x: "stored_expiry w1 = Some x"
    by blast
  have "initializeAuth e2 w1 = (Inr (), log_event InitAuth w1)" if "now_check e2 < x" for e2
  proof -
    have "stored_valid (now_check e2) w1"
      using tok x that by (simp add: stored_valid_expiry)
    then have "initializeAuth e2 w1 =
        (Inr (), (log_event InitAuth w1)\<lparr>accessToken := localStorage w1 token_key\<rparr>)"
      by (rule initializeAuth_stored)
    also have "(log_event InitAuth w1)\<lparr>accessToken := localStorage w1 token_key\<rparr> = log_event InitAuth w1"
      using tok(1) by (simp add: log_event_def)
    finally show ?thesis .
  qed
  with x show "\<exists>x. stored_expiry w1 = Some x \<and>
           (\<forall>e2. now_check e2 < x \<longrightarrow>
                 initializeAuth e2 w1 = (Inr (), log_event InitAuth w1))"
    by blast
qed

text \<open>The user types the token at time 0; half an hour later the second call reuses it.\<close>

theorem initializeAuth_twice_witness:
  "initializeAuth env_first fresh_world = (Inr (), world_held) \<and>
   stored_expiry world_held = Some 3600000 \<and>
   now_check env_soon < 3600000 \<and>
   initializeAuth env_soon world_held = (Inr (), log_event InitAuth world_held)"
proof -
  have soon: "now_check env_soon < 3600000" by (simp add: env_soon_def)
  from initializeAuth_twice [of env_first fresh_world undefined world_held] world_held_reached
  obtain x where "stored_expiry world_held = Some x"
    and "\<forall>e2. now_check e2 < x \<longrightarrow>
           initializeAuth e2 world_held = (Inr (), log_event InitAuth world_held)"
    by blast
  with world_held_expiry soon
  have "initializeAuth env_soon world_held = (Inr (), log_event InitAuth world_held)" by simp
  with world_held_reached world_held_expiry soon show ?thesis by simp
qed

text \<open>
  C9. \<^verbatim>\<open>close\<close> sets the token in memory to \<^verbatim>\<open>null\<close> and changes nothing else: both
  storage entries stay. So the next \<^verbatim>\<open>initializeAuth\<close> before the stored expiry takes the
  stored token over without a prompt; after an acquisition it restores the very state the
  acquisition had left.
\<close>

theorem close_keeps_storage:
  "localStorage (close w) = localStorage w \<and>
   accessToken (close w) = None \<and>
   trace (close w) = trace w \<and>
   baseUrl (close w) = baseUrl w \<and>
   (stored_valid (now_check e) w \<longrightarrow>
      initializeAuth e (close w) =
        (Inr (), (log_event InitAuth w)\<lparr>accessToken := localStorage w token_key\<rparr>)) \<and>
   (initializeAuth e1 w0 = (Inr (), w) \<and> stored_expiry w = Some x \<and> now_check e < x \<longrightarrow>
      initializeAuth e (close w) = (Inr (), log_event InitAuth w))"
proof -
  have sv: "stored_valid now (close w) = stored_valid now w" for now
    by (simp add: stored_valid_def close_def)
  have a: "initializeAuth e (close w) =
        (Inr (), (log_event InitAuth w)\<lparr>accessToken := localStorage w token_key\<rparr>)"
    if "stored_valid (now_check e) w"
    using that initializeAuth_stored [of e "close w"]
    by (simp add: sv) (simp add: close_def log_event_def)
  have b: "initializeAuth e (close w) = (Inr (), log_event InitAuth w)"
    if ok: "initializeAuth e1 w0 = (Inr (), w)" and x: "stored_expiry w = Some x" "now_check e < x"
  proof -
    from initializeAuth_after [OF ok]
    have tok: "accessToken w = localStorage w token_key" "str_truthy (localStorage w token_key)"
      by simp_all
    then have "stored_valid (now_check e) w" using x by (simp add: stored_valid_expiry)
    from a [OF this] tok(1) show ?thesis by (simp add: log_event_def)
  qed
  show ?thesis using a b by (simp add: close_def)
qed

text \<open>Acquire at time 0, close, acquire again half an hour later.\<close>

theorem close_keeps_storage_witness:
  "localStorage (close world_held) = localStorage world_held \<and>
   accessToken (close world_held) = None \<and>
   initializeAuth env_first fresh_world = (Inr (), world_held) \<and>
   stored_expiry world_held = Some 3600000 \<and>
   now_check env_soon < 3600000 \<and>
   initializeAuth env_soon (close world_held) = (Inr (), log_event InitAuth world_held)"
proof -
  have soon: "now_check env_soon < 3600000" by (simp add: env_soon_def)
  from close_keeps_storage [of world_held env_soon env_first fresh_world 3600000]
    world_held_reached world_held_expiry soon
  show ?thesis by simp
qed

section \<open>Facts about the tool call\<close>

lemma ensure_auth_held: "str_truthy (accessToken w) \<Longrightarrow> ensure_auth e w = (Inr (), w)"
  by (simp add: ensure_auth_def)

lemma ensure_auth_absent: "\<not> str_truthy (accessToken w) \<Longrightarrow> ensure_auth e w = initializeAuth e w"
  by (simp add: ensure_auth_def)

lemma callTool_auth_failed:
  "ensure_auth e w = (Inl err, w1) \<Longrightarrow> callTool p e n a w = (Inl err, w1)"
  by (simp add: callTool_def)

lemma callTool_sent:
  "ensure_auth e w = (Inr u, w1) \<Longrightarrow>
   snd (callTool p e n a w) = log_event (Post (auth_header w1) n a) w1"
  by (simp add: callTool_def Let_def split: http_outcome.splits sum.splits)

lemma callTool_answered:
  "ensure_auth e w = (Inr u, w1) \<Longrightarrow> post_outcome e = HttpOk d \<Longrightarrow>
   callTool p e n a w =
     (case read_response p d of Inl err \<Rightarrow> Inl (ToolCallFailure n err) | Inr v \<Rightarrow> Inr v,
      log_event (Post (auth_header w1) n a) w1)"
  by (simp add: callTool_def Let_def split: sum.splits)

lemma callTool_rejected:
  "ensure_auth e w = (Inr u, w1) \<Longrightarrow> post_outcome e = HttpFail err \<Longrightarrow>
   callTool p e n a w =
     (Inl (axios_failure n (log_event (Post (auth_header w1) n a) w1) err),
      log_event (Post (auth_header w1) n a) w1)"
  by (simp add: callTool_def Let_def)

lemma ensure_auth_env:
  "ensure_auth (e\<lparr>post_outcome := r\<rparr>) w = ensure_auth e w"
  by (simp add: ensure_auth_def initializeAuth_def Let_def split: option.splits)

lemma ensure_auth_world_held: "ensure_auth e world_held = (Inr (), world_held)"
  by (simp add: ensure_auth_def world_held_def)

lemma auth_header_world_held: "auth_header world_held = Some ''tok''"
  by (simp add: auth_header_def world_held_def)

lemma split_nl_not_Nil: "split_nl s \<noteq> []"
  by (induction s) (auto split: list.splits)

lemma split_nl_no_newline: "l \<in> set (split_nl s) \<Longrightarrow> CHR 0x0A \<notin> set l"
proof (induction s arbitrary: l)
  case Nil
  then show ?case by simp
next
  case (Cons c cs)
  show ?case
  proof (cases "c = CHR 0x0A")
    case True
    with Cons show ?thesis by auto
  next
    case False
    obtain k ks where ks: "split_nl cs = k # ks"
      using split_nl_not_Nil by (cases "split_nl cs") auto
    with False Cons show ?thesis by auto
  qed
qed

lemma split_nl_single: "CHR 0x0A \<notin> set l \<Longrightarrow> split_nl l = [l]"
  by (induction l) auto

lemma sse_data_line_first:
  assumes "find (\<lambda>line. startsWith line ''data: '') (split_nl body) = Some l"
  shows "sse_data_line body = sse_data_line l"
proof -
  from assms have "l \<in> set (split_nl body)" and st: "startsWith l ''data: ''"
    by (auto simp: find_Some_iff)
  then have "split_nl l = [l]" by (simp add: split_nl_no_newline split_nl_single)
  with assms st show ?thesis by (simp add: sse_data_line_def)
qed

lemma sse_data_line_none:
  assumes "\<forall>line\<in>set (split_nl body). \<not> startsWith line ''data: ''"
  shows "sse_data_line body = []"
proof -
  from assms have "find (\<lambda>line. startsWith line ''data: '') (split_nl body) = None"
    by (simp add: find_None_iff)
  then show ?thesis by (simp add: sse_data_line_def)
qed

lemma split_nl_line: "CHR 0x0A \<notin> set l \<Longrightarrow> split_nl (l @ CHR 0x0A # r) = l # split_nl r"
proof (induction l)
  case Nil
  then show ?case by simp
next
  case (Cons c cs)
  obtain k ks where "split_nl (cs @ CHR 0x0A # r) = k # ks"
    using split_nl_not_Nil by (cases "split_nl (cs @ CHR 0x0A # r)") auto
  with Cons show ?case by auto
qed

lemma sse_data_line_sse_body:
  assumes "CHR 0x0A \<notin> set t"
  shows "sse_data_line (sse_body t) = t"
proof -
  have 1: "sse_body t = ''event: message'' @ CHR 0x0A # ((''data: '' @ t) @ CHR 0x0A # [CHR 0x0A])"
    by (simp add: sse_body_def)
  have 2: "split_nl (sse_body t) = [''event: message'', ''data: '' @ t, [], []]"
    unfolding 1 using assms by (subst split_nl_line, simp)+ simp
  show ?thesis
    unfolding sse_data_line_def 2 by (simp add: startsWith_def substring_def)
qed

lemma read_sse_error:
  assumes "sse_data_line body = d" "d \<noteq> []" "JSON_parse p d = Some v"
    and "get_prop v ''error'' = Some err" "truthy err"
  shows "read_sse p body =
           Inl (SSEParseFailure (JsonRpcError (get_prop err ''message'') (get_prop err ''code'')))"
proof -
  from assms(4) have "v \<noteq> JNull" by auto
  with assms show ?thesis by (simp add: read_sse_def sse_try_def)
qed

lemma read_structured_error:
  assumes "map_of kvs ''error'' = Some err" "err \<noteq> JNull"
  shows "read_structured (JObj kvs) =
           Inl (JsonRpcError (get_prop err ''message'') (get_prop err ''code''))"
  using assms by (simp add: read_structured_def)

lemma read_structured_result:
  assumes "map_of kvs ''error'' = None" "map_of kvs ''result'' = Some res"
  shows "read_structured (JObj kvs) = Inr res"
  using assms by (simp add: read_structured_def)


lemma no_newline_error_text: "CHR 0x0A \<notin> set error_text"
  by (simp add: error_text_def)


lemma parse_error_text: "JSON_parse sample_platform error_text = Some error_value"
  by (simp add: sample_platform_def sample_parse_def)






lemma env_answer_post: "post_outcome (env_answer r) = r"
  by (simp add: env_answer_def)

lemma env_answer_update: "(env_answer r)\<lparr>post_outcome := r'\<rparr> = env_answer r'"
  by (simp add: env_answer_def)

section \<open>Failures of a tool call\<close>

text \<open>
  C5. When the body of the response is a string none of whose lines starts with
  \<^verbatim>\<open>data: \<close>, \<^verbatim>\<open>callTool\<close> fails, and the failure it raises is the one of line 184,
  ``No data line found in SSE response'', under the prefix ``Failed to call tool'' that the
  outer \<^verbatim>\<open>catch\<close> puts before every failure that is not one of axios. When some line
  starts with \<^verbatim>\<open>data: \<close>, the call ends as it would if the body were the first such line
  alone: no other line is used.
\<close>

theorem callTool_no_data_line:
  "(ensure_auth e w = (Inr (), w1) \<and> post_outcome e = HttpOk (JStr body) \<and>
    (\<forall>line\<in>set (split_nl body). \<not> startsWith line ''data: '') \<longrightarrow>
      callTool p e n a w =
        (Inl (ToolCallFailure n NoDataLine), log_event (Post (auth_header w1) n a) w1)) \<and>
   (post_outcome e = HttpOk (JStr body) \<and>
    find (\<lambda>line. startsWith line ''data: '') (split_nl body) = Some l \<longrightarrow>
      callTool p e n a w = callTool p (e\<lparr>post_outcome := HttpOk (JStr l)\<rparr>) n a w)"
proof (intro conjI impI)
  assume h: "ensure_auth e w = (Inr (), w1) \<and> post_outcome e = HttpOk (JStr body) \<and>
    (\<forall>line\<in>set (split_nl body). \<not> startsWith line ''data: '')"
  then have "read_response p (JStr body) = Inl NoDataLine"
    by (simp add: read_response_def read_sse_def sse_data_line_none)
  with h show "callTool p e n a w =
        (Inl (ToolCallFailure n NoDataLine), log_event (Post (auth_header w1) n a) w1)"
    by (simp add: callTool_answered)
next
  assume h: "post_outcome e = HttpOk (JStr body) \<and>
    find (\<lambda>line. startsWith line ''data: '') (split_nl body) = Some l"
  then have "read_response p (JStr body) = read_response p (JStr l)"
    by (simp add: read_response_def read_sse_def sse_data_line_first [of body l])
  with h show "callTool p e n a w = callTool p (e\<lparr>post_outcome := HttpOk (JStr l)\<rparr>) n a w"
    by (simp add: callTool_def ensure_auth_env Let_def split: prod.splits sum.splits)
qed


text \<open>
  A plain text body, and an event stream with two data lines, on the call made half an hour
  after the acquisition.
\<close>

theorem callTool_no_data_line_witness:
  "callTool sample_platform (env_answer (HttpOk (JStr ''Service Unavailable''))) ''search'' (JObj [])
     world_held =
     (Inl (ToolCallFailure ''search'' NoDataLine),
      log_event (Post (Some ''tok'') ''search'' (JObj [])) world_held) \<and>
   callTool sample_platform (env_answer (HttpOk (JStr (sse_body error_text @ ''data: {}''))))
     ''search'' (JObj []) world_held =
   callTool sample_platform (env_answer (HttpOk (JStr (''data: '' @ error_text))))
     ''search'' (JObj []) world_held"
proof -
  have none: "\<forall>line\<in>set (split_nl ''Service Unavailable''). \<not> startsWith line ''data: ''"
    by (simp add: startsWith_def)
  have "sse_body error_text @ ''data: {}'' =
          ''event: message'' @ CHR 0x0A # ((''data: '' @ error_text) @ CHR 0x0A # (CHR 0x0A # ''data: {}''))"
    by (simp add: sse_body_def)
  then have "split_nl (sse_body error_text @ ''data: {}'') =
          [''event: message'', ''data: '' @ error_text, [], ''data: {}'']"
    using no_newline_error_text by (simp add: split_nl_line)
  then have first:
    "find (\<lambda>line. startsWith line ''data: '') (split_nl (sse_body error_text @ ''data: {}'')) =
       Some (''data: '' @ error_text)"
    by (simp add: startsWith_def)
  from callTool_no_data_line
         [where e = "env_answer (HttpOk (JStr ''Service Unavailable''))" and w = world_held
            and ?w1.0 = world_held and body = "''Service Unavailable''" and p = sample_platform
            and n = "''search''" and a = "JObj []"]
       none
  have a: "callTool sample_platform (env_answer (HttpOk (JStr ''Service Unavailable''))) ''search''
             (JObj []) world_held =
           (Inl (ToolCallFailure ''search'' NoDataLine),
            log_event (Post (Some ''tok'') ''search'' (JObj [])) world_held)"
    by (simp add: ensure_auth_world_held env_answer_post auth_header_world_held)
  from callTool_no_data_line
         [where e = "env_answer (HttpOk (JStr (sse_body error_text @ ''data: {}'')))"
            and w = world_held and body = "sse_body error_text @ ''data: {}''"
            and l = "''data: '' @ error_text" and p = sample_platform
            and n = "''search''" and a = "JObj []"]
       first
  have b: "callTool sample_platform (env_answer (HttpOk (JStr (sse_body error_text @ ''data: {}''))))
             ''search'' (JObj []) world_held =
           callTool sample_platform (env_answer (HttpOk (JStr (''data: '' @ error_text))))
             ''search'' (JObj []) world_held"
    by (simp add: env_answer_post env_answer_update)
  from a b show ?thesis by simp
qed

text \<open>
  C2. The server answers with the envelope \<^verbatim>\<open>{"error":{"code":7,"message":"bad"}}\<close>.
  Sent as a structured body, \<^verbatim>\<open>callTool\<close> fails with the error of line 193,
  ``JSON-RPC Error: bad (Code: 7)'', as the cause of the ``Failed to call tool'' failure.
  Sent as the data line of an event stream, the same error, thrown at line 160 inside the
  \<^verbatim>\<open>try\<close> that guards \<^verbatim>\<open>JSON.parse\<close>, is caught by the \<^verbatim>\<open>catch\<close> of that \<^verbatim>\<open>try\<close> and
  thrown again as ``Failed to parse SSE response'': the remote error reaches the caller as
  the cause of a parse failure.
\<close>

theorem callTool_error_envelope:
  "callTool sample_platform (env_answer (HttpOk (JStr (sse_body error_text)))) ''search'' (JObj [])
     world_held =
     (Inl (ToolCallFailure ''search''
            (SSEParseFailure (JsonRpcError (Some (JStr ''bad'')) (Some (JNum 7))))),
      log_event (Post (Some ''tok'') ''search'' (JObj [])) world_held) \<and>
   callTool sample_platform (env_answer (HttpOk error_value)) ''search'' (JObj []) world_held =
     (Inl (ToolCallFailure ''search'' (JsonRpcError (Some (JStr ''bad'')) (Some (JNum 7)))),
      log_event (Post (Some ''tok'') ''search'' (JObj [])) world_held)"
proof -
  have "read_sse sample_platform (sse_body error_text) =
          Inl (SSEParseFailure (JsonRpcError (Some (JStr ''bad'')) (Some (JNum 7))))"
    using read_sse_error
            [of "sse_body error_text" error_text sample_platform error_value
                "JObj [(''code'', JNum 7), (''message'', JStr ''bad'')]"]
    by (simp add: sse_data_line_sse_body no_newline_error_text parse_error_text error_value_def)
       (simp add: error_text_def)
  then have a: "read_response sample_platform (JStr (sse_body error_text)) =
          Inl (SSEParseFailure (JsonRpcError (Some (JStr ''bad'')) (Some (JNum 7))))"
    by (simp add: read_response_def)
  have b: "read_response sample_platform error_value =
          Inl (JsonRpcError (Some (JStr ''bad'')) (Some (JNum 7)))"
    by (simp add: read_response_def error_value_def read_structured_def)
  show ?thesis
    using callTool_answered
            [of "env_answer (HttpOk (JStr (sse_body error_text)))" world_held "()" world_held
                "JStr (sse_body error_text)" sample_platform "''search''" "JObj []"]
          callTool_answered
            [of "env_answer (HttpOk error_value)" world_held "()" world_held
                error_value sample_platform "''search''" "JObj []"]
    by (simp add: ensure_auth_world_held env_answer_post auth_header_world_held a b)
qed

section \<open>Facts about the search\<close>

lemma search_ok:
  "callTool p e ''search'' (search_args t ty) w = (Inr result, w1) \<Longrightarrow>
   search p e t ty w = (return_results p (pick_results result), w1)"
  by (simp add: search_def)

lemma search_failed:
  "callTool p e ''search'' (search_args t ty) w = (Inl err, w1) \<Longrightarrow>
   search p e t ty w = (Inl err, w1)"
  by (simp add: search_def)

lemma return_results_array: "JNull \<notin> set xs \<Longrightarrow> return_results p (JArr xs) = Inr xs"
  by (cases xs) (simp_all add: return_results_def length_gt_zero_def)

lemma get_prop_Some_object: "get_prop v k = Some x \<Longrightarrow> truthy v \<and> typeof_object v"
  by (cases v) simp_all

lemma pick_results_top:
  "get_prop result ''results'' = Some (JArr xs) \<Longrightarrow> pick_results result = JArr xs"
  by (frule get_prop_Some_object) (simp add: pick_results_def top_results_def)

section \<open>Unwrapping an event stream\<close>





section \<open>Facts about the extraction of results\<close>

lemma pick_results_nested:
  assumes "top_results result = None" "get_prop result ''data'' = Some d"
    and "get_prop d ''results'' = Some (JArr ys)"
  shows "pick_results result = JArr ys"
proof -
  from assms(2) have "truthy result \<and> typeof_object result" by (rule get_prop_Some_object)
  moreover from assms(3) have "truthy d" using get_prop_Some_object by blast
  ultimately show ?thesis using assms by (simp add: pick_results_def nested_results_def)
qed

lemma pick_results_array: "pick_results (JArr zs) = JArr zs"
  by (simp add: pick_results_def top_results_def nested_results_def)

lemma pick_results_content:
  assumes "top_results (JObj kvs) = None" "nested_results (JObj kvs) = None"
  shows "pick_results (JObj kvs) =
           (if truthy_opt (map_of kvs ''content'') then JArr [JObj kvs] else JArr [])"
  using assms by (simp add: pick_results_def)

lemma pick_results_primitive:
  "result = JNull \<or> \<not> typeof_object result \<Longrightarrow> pick_results result = JArr []"
  by (auto simp add: pick_results_def)

lemma world_held_call:
  "post_outcome e = HttpOk d \<Longrightarrow>
   callTool p e n a world_held =
     (case read_response p d of Inl err \<Rightarrow> Inl (ToolCallFailure n err) | Inr v \<Rightarrow> Inr v,
      log_event (Post (Some ''tok'') n a) world_held)"
  using callTool_answered [of e world_held "()" world_held d p n a]
  by (simp add: ensure_auth_world_held auth_header_world_held)

section \<open>What a search returns\<close>

text \<open>
  C3, as worded. The server answers with the single hit \<^verbatim>\<open>{"content": "", "score": 0.9}\<close>
  as the result.
  The payload has a \<^verbatim>\<open>content\<close> field, so the extraction as worded gives the payload as
  the one result; line 292 tests \<^verbatim>\<open>result.content\<close> for truthiness, the empty string is
  falsy, and \<^verbatim>\<open>search\<close> returns no result.
\<close>

theorem search_precedence_counterexample:
  "callTool sample_platform (env_answer (HttpOk (JObj [(''result'', blank_hit)]))) ''search''
     (search_args ''x'' ''hybrid'') world_held =
     (Inr blank_hit,
      log_event (Post (Some ''tok'') ''search'' (search_args ''x'' ''hybrid'')) world_held) \<and>
   search sample_platform (env_answer (HttpOk (JObj [(''result'', blank_hit)]))) ''x'' ''hybrid''
     world_held =
     (Inr [],
      log_event (Post (Some ''tok'') ''search'' (search_args ''x'' ''hybrid'')) world_held) \<and>
   spec_results blank_hit = [blank_hit]"
proof -
  have call: "callTool sample_platform (env_answer (HttpOk (JObj [(''result'', blank_hit)])))
       ''search'' (search_args ''x'' ''hybrid'') world_held =
     (Inr blank_hit,
      log_event (Post (Some ''tok'') ''search'' (search_args ''x'' ''hybrid'')) world_held)"
    by (simp add: world_held_call env_answer_post read_response_def read_structured_def)
  have "return_results sample_platform (pick_results blank_hit) = Inr []"
    by (simp add: blank_hit_def pick_results_def top_results_def nested_results_def
          return_results_def length_gt_zero_def)
  with search_ok [OF call] have "search sample_platform
       (env_answer (HttpOk (JObj [(''result'', blank_hit)]))) ''x'' ''hybrid'' world_held =
     (Inr [],
      log_event (Post (Some ''tok'') ''search'' (search_args ''x'' ''hybrid'')) world_held)"
    by simp
  moreover have "spec_results blank_hit = [blank_hit]"
    by (simp add: spec_results_def blank_hit_def)
  ultimately show ?thesis using call by simp
qed

text \<open>
  C3, amended. Whatever payload \<^verbatim>\<open>callTool\<close> resolves, \<^verbatim>\<open>search\<close> returns, in this order of
  precedence: the top-level \<^verbatim>\<open>results\<close> when it is an array; else the nested
  \<^verbatim>\<open>data.results\<close> when it is an array; else the payload when it is itself an array; else
  the payload alone when its \<^verbatim>\<open>content\<close> is truthy (present, and not \<^verbatim>\<open>null\<close>, \<^verbatim>\<open>false\<close>,
  0 or the empty string); else nothing. The array that is returned is returned as it is,
  all elements in order; its elements are records (none is \<^verbatim>\<open>null\<close>). Nothing is said of a
  \<^verbatim>\<open>data.results\<close> that is truthy and not an array.
\<close>

theorem search_precedence:
  "callTool p e ''search'' (search_args t ty) w = (Inr result, w1) \<longrightarrow>
     (get_prop result ''results'' = Some (JArr xs) \<and> JNull \<notin> set xs \<longrightarrow>
        search p e t ty w = (Inr xs, w1)) \<and>
     (top_results result = None \<and> get_prop result ''data'' = Some d \<and>
      get_prop d ''results'' = Some (JArr ys) \<and> JNull \<notin> set ys \<longrightarrow>
        search p e t ty w = (Inr ys, w1)) \<and>
     (result = JArr zs \<and> JNull \<notin> set zs \<longrightarrow>
        search p e t ty w = (Inr zs, w1)) \<and>
     (result = JObj kvs \<and> top_results result = None \<and> nested_results result = None \<and>
      truthy_opt (map_of kvs ''content'') \<longrightarrow>
        search p e t ty w = (Inr [result], w1)) \<and>
     (result = JObj kvs \<and> top_results result = None \<and> nested_results result = None \<and>
      \<not> truthy_opt (map_of kvs ''content'') \<longrightarrow>
        search p e t ty w = (Inr [], w1))"
proof (intro impI)
  assume "callTool p e ''search'' (search_args t ty) w = (Inr result, w1)"
  then have s: "search p e t ty w = (return_results p (pick_results result), w1)"
    by (rule search_ok)
  have 1: "search p e t ty w = (Inr xs, w1)"
    if "get_prop result ''results'' = Some (JArr xs) \<and> JNull \<notin> set xs"
    using that by (simp add: s pick_results_top return_results_array)
  have 2: "search p e t ty w = (Inr ys, w1)"
    if "top_results result = None \<and> get_prop result ''data'' = Some d \<and>
        get_prop d ''results'' = Some (JArr ys) \<and> JNull \<notin> set ys"
    using that by (simp add: s pick_results_nested [of result d ys] return_results_array)
  have 3: "search p e t ty w = (Inr zs, w1)" if "result = JArr zs \<and> JNull \<notin> set zs"
    using that by (simp add: s pick_results_array return_results_array)
  have 4: "search p e t ty w = (Inr [result], w1)"
    if "result = JObj kvs \<and> top_results result = None \<and> nested_results result = None \<and>
        truthy_opt (map_of kvs ''content'')"
    using that by (auto simp add: s pick_results_content return_results_array)
  have 5: "search p e t ty w = (Inr [], w1)"
    if "result = JObj kvs \<and> top_results result = None \<and> nested_results result = None \<and>
        \<not> truthy_opt (map_of kvs ''content'')"
    using that by (auto simp add: s pick_results_content return_results_array)
  from 1 2 3 4 5 show "(get_prop result ''results'' = Some (JArr xs) \<and> JNull \<notin> set xs \<longrightarrow>
        search p e t ty w = (Inr xs, w1)) \<and>
     (top_results result = None \<and> get_prop result ''data'' = Some d \<and>
      get_prop d ''results'' = Some (JArr ys) \<and> JNull \<notin> set ys \<longrightarrow>
        search p e t ty w = (Inr ys, w1)) \<and>
     (result = JArr zs \<and> JNull \<notin> set zs \<longrightarrow>
        search p e t ty w = (Inr zs, w1)) \<and>
     (result = JObj kvs \<and> top_results result = None \<and> nested_results result = None \<and>
      truthy_opt (map_of kvs ''content'') \<longrightarrow>
        search p e t ty w = (Inr [result], w1)) \<and>
     (result = JObj kvs \<and> top_results result = None \<and> nested_results result = None \<and>
      \<not> truthy_opt (map_of kvs ''content'') \<longrightarrow>
        search p e t ty w = (Inr [], w1))"
    by blast
qed

text \<open>
  Five results: an object with a \<^verbatim>\<open>results\<close> array of two records, the same array under
  \<^verbatim>\<open>data\<close>, the array itself, a single hit, and the empty object.
\<close>

theorem search_precedence_witness:
  "search sample_platform (env_answer (HttpOk (JObj [(''result'', inner_value)]))) ''x'' ''hybrid''
     world_held =
     (Inr inner_results,
      log_event (Post (Some ''tok'') ''search'' (search_args ''x'' ''hybrid'')) world_held) \<and>
   search sample_platform
     (env_answer (HttpOk (JObj [(''result'', JObj [(''data'', inner_value)])]))) ''x'' ''hybrid''
     world_held =
     (Inr inner_results,
      log_event (Post (Some ''tok'') ''search'' (search_args ''x'' ''hybrid'')) world_held) \<and>
   search sample_platform (env_answer (HttpOk (JObj [(''result'', JArr inner_results)]))) ''x''
     ''hybrid'' world_held =
     (Inr inner_results,
      log_event (Post (Some ''tok'') ''search'' (search_args ''x'' ''hybrid'')) world_held) \<and>
   search sample_platform (env_answer (HttpOk (JObj [(''result'', hello_hit)]))) ''x'' ''hybrid''
     world_held =
     (Inr [hello_hit],
      log_event (Post (Some ''tok'') ''search'' (search_args ''x'' ''hybrid'')) world_held) \<and>
   search sample_platform (env_answer (HttpOk (JObj [(''result'', JObj [])]))) ''x'' ''hybrid''
     world_held =
     (Inr [],
      log_event (Post (Some ''tok'') ''search'' (search_args ''x'' ''hybrid'')) world_held)"
proof -
  let ?w = "log_event (Post (Some ''tok'') ''search'' (search_args ''x'' ''hybrid'')) world_held"
  let ?e = "\<lambda>v. env_answer (HttpOk (JObj [(''result'', v)]))"
  have call: "callTool sample_platform (?e v) ''search'' (search_args ''x'' ''hybrid'') world_held =
     (Inr v, ?w)" for v
    by (simp add: world_held_call env_answer_post read_response_def read_structured_def)
  have records: "JNull \<notin> set inner_results"
    by (simp add: inner_results_def)
  have top: "get_prop inner_value ''results'' = Some (JArr inner_results)"
    by (simp add: inner_value_def)
  have nested: "top_results (JObj [(''data'', inner_value)]) = None \<and>
      get_prop (JObj [(''data'', inner_value)]) ''data'' = Some inner_value"
    by (simp add: top_results_def)
  have hit: "hello_hit = JObj [(''content'', JStr ''hello''), (''score'', JNum (9 / 10))] \<and>
      top_results hello_hit = None \<and> nested_results hello_hit = None \<and>
      truthy_opt (map_of [(''content'', JStr ''hello''), (''score'', JNum (9 / 10))] ''content'')"
    by (simp add: hello_hit_def top_results_def nested_results_def)
  have none: "top_results (JObj []) = None \<and> nested_results (JObj []) = None \<and>
      \<not> truthy_opt (map_of [] ''content'')"
    by (simp add: top_results_def nested_results_def)
  from search_precedence
         [where p = sample_platform and e = "?e inner_value" and t = "''x''" and ty = "''hybrid''"
            and w = world_held and result = inner_value and xs = inner_results]
       call [of inner_value] top records
  have 1: "search sample_platform (?e inner_value) ''x'' ''hybrid'' world_held =
       (Inr inner_results, ?w)"
    by blast
  from search_precedence
         [where p = sample_platform and e = "?e (JObj [(''data'', inner_value)])" and t = "''x''"
            and ty = "''hybrid''" and w = world_held and result = "JObj [(''data'', inner_value)]"
            and d = inner_value and ys = inner_results]
       call [of "JObj [(''data'', inner_value)]"] nested top records
  have 2: "search sample_platform (?e (JObj [(''data'', inner_value)])) ''x'' ''hybrid'' world_held =
       (Inr inner_results, ?w)"
    by blast
  from search_precedence
         [where p = sample_platform and e = "?e (JArr inner_results)" and t = "''x''"
            and ty = "''hybrid''" and w = world_held and result = "JArr inner_results"
            and zs = inner_results]
       call [of "JArr inner_results"] records
  have 3: "search sample_platform (?e (JArr inner_results)) ''x'' ''hybrid'' world_held =
       (Inr inner_results, ?w)"
    by blast
  from search_precedence
         [where p = sample_platform and e = "?e hello_hit" and t = "''x''" and ty = "''hybrid''"
            and w = world_held and result = hello_hit
            and kvs = "[(''content'', JStr ''hello''), (''score'', JNum (9 / 10))]"]
       call [of hello_hit] hit
  have 4: "search sample_platform (?e hello_hit) ''x'' ''hybrid'' world_held = (Inr [hello_hit], ?w)"
    by blast
  from search_precedence
         [where p = sample_platform and e = "?e (JObj [])" and t = "''x''" and ty = "''hybrid''"
            and w = world_held and result = "JObj []" and kvs = "[]"]
       call [of "JObj []"] none
  have 5: "search sample_platform (?e (JObj [])) ''x'' ''hybrid'' world_held = (Inr [], ?w)"
    by blast
  from 1 2 3 4 5 show ?thesis by simp
qed

text \<open>
  C10. When the payload \<^verbatim>\<open>callTool\<close> resolves is \<^verbatim>\<open>null\<close> or is not an object (a number,
  a string, a boolean), \<^verbatim>\<open>search\<close> does not fail: it returns the empty list.
\<close>

theorem search_not_object:
  "callTool p e ''search'' (search_args t ty) w = (Inr result, w1) \<and>
   (result = JNull \<or> \<not> typeof_object result) \<longrightarrow>
     search p e t ty w = (Inr [], w1)"
proof (intro impI)
  assume h: "callTool p e ''search'' (search_args t ty) w = (Inr result, w1) \<and>
   (result = JNull \<or> \<not> typeof_object result)"
  then have "pick_results result = JArr []" by (simp add: pick_results_primitive)
  then have "return_results p (pick_results result) = Inr []"
    by (simp add: return_results_array)
  with h search_ok [of p e t ty w result w1] show "search p e t ty w = (Inr [], w1)" by simp
qed

text \<open>The results 5, \<^verbatim>\<open>null\<close> and \<^verbatim>\<open>"none"\<close>.\<close>

theorem search_not_object_witness:
  "search sample_platform (env_answer (HttpOk (JObj [(''result'', JNum 5)]))) ''x'' ''hybrid''
     world_held =
     (Inr [],
      log_event (Post (Some ''tok'') ''search'' (search_args ''x'' ''hybrid'')) world_held) \<and>
   search sample_platform (env_answer (HttpOk (JObj [(''result'', JNull)]))) ''x'' ''hybrid''
     world_held =
     (Inr [],
      log_event (Post (Some ''tok'') ''search'' (search_args ''x'' ''hybrid'')) world_held) \<and>
   search sample_platform (env_answer (HttpOk (JObj [(''result'', JStr ''none'')]))) ''x'' ''hybrid''
     world_held =
     (Inr [],
      log_event (Post (Some ''tok'') ''search'' (search_args ''x'' ''hybrid'')) world_held)"
proof -
  have c: "callTool sample_platform (env_answer (HttpOk (JObj [(''result'', v)])))
       ''search'' (search_args ''x'' ''hybrid'') world_held =
     (Inr v, log_event (Post (Some ''tok'') ''search'' (search_args ''x'' ''hybrid'')) world_held)"
    for v
    by (simp add: world_held_call env_answer_post read_response_def read_structured_def)
  have s: "search sample_platform (env_answer (HttpOk (JObj [(''result'', v)]))) ''x'' ''hybrid''
       world_held =
     (Inr [], log_event (Post (Some ''tok'') ''search'' (search_args ''x'' ''hybrid'')) world_held)"
    if "v = JNull \<or> \<not> typeof_object v" for v
    using search_not_object
            [where p = sample_platform and e = "env_answer (HttpOk (JObj [(''result'', v)]))"
               and t = "''x''" and ty = "''hybrid''" and w = world_held and result = v]
          c [of v] that
    by blast
  from s [of "JNum 5"] s [of JNull] s [of "JStr ''none''"] show ?thesis by simp
qed

section \<open>Facts about expired and absent tokens\<close>

lemma expired_not_valid: "credential_expired now w \<Longrightarrow> \<not> stored_valid now w"
  by (auto simp add: credential_expired_def stored_valid_expiry split: option.splits)

lemma auth_header_truthy: "str_truthy (accessToken w) \<Longrightarrow> auth_header w = accessToken w"
  by (simp add: auth_header_def)

lemma world_held_expired: "credential_expired (now_check env_late) world_held"
  by (simp add: credential_expired_def world_held_expiry env_late_def)

section \<open>When a tool call acquires a token\<close>

text \<open>
  C1, as worded. The user types the token at time 0, so the stored expiry is 3600000. Two
  hours later, at 7200000, the token is still held in memory and \<^verbatim>\<open>callTool\<close> is entered:
  the test of line 110 looks at the token in memory alone, \<^verbatim>\<open>initializeAuth\<close> is not
  called, and the request leaves with the token whose expiry has passed. No storage check
  and no prompt stand between the entry and the POST.
\<close>

theorem callTool_stale_counterexample:
  "initializeAuth env_first fresh_world = (Inr (), world_held) \<and>
   accessToken world_held = Some ''tok'' \<and>
   stored_expiry world_held = Some 3600000 \<and>
   now_check env_late = 7200000 \<and>
   credential_expired (now_check env_late) world_held \<and>
   callTool sample_platform env_late ''search'' (search_args ''x'' ''hybrid'') world_held =
     (Inr (JObj [(''results'', JArr [])]),
      log_event (Post (Some ''tok'') ''search'' (search_args ''x'' ''hybrid'')) world_held) \<and>
   trace (snd (callTool sample_platform env_late ''search'' (search_args ''x'' ''hybrid'') world_held)) =
     [InitAuth, Prompt, Post (Some ''tok'') ''search'' (search_args ''x'' ''hybrid'')]"
proof -
  have call: "callTool sample_platform env_late ''search'' (search_args ''x'' ''hybrid'') world_held =
     (Inr (JObj [(''results'', JArr [])]),
      log_event (Post (Some ''tok'') ''search'' (search_args ''x'' ''hybrid'')) world_held)"
    using world_held_call
            [of env_late "JObj [(''result'', JObj [(''results'', JArr [])])]" sample_platform
                "''search''" "search_args ''x'' ''hybrid''"]
    by (simp add: env_late_def empty_answer_def read_response_def read_structured_def)
  then have "trace (snd (callTool sample_platform env_late ''search''
        (search_args ''x'' ''hybrid'') world_held)) =
     [InitAuth, Prompt, Post (Some ''tok'') ''search'' (search_args ''x'' ''hybrid'')]"
    by (simp add: log_event_def world_held_def)
  moreover have "accessToken world_held = Some ''tok''" by (simp add: world_held_def)
  moreover have "now_check env_late = 7200000" by (simp add: env_late_def)
  ultimately show ?thesis
    using call world_held_reached world_held_expiry world_held_expired by simp
qed

text \<open>
  C1, amended. \<^verbatim>\<open>callTool\<close> calls \<^verbatim>\<open>initializeAuth\<close> before it sends the request exactly
  when no token is held in memory. A token held in memory is sent as it is, whatever the
  stored expiry. With no token in memory: when \<^verbatim>\<open>initializeAuth\<close> fails, the call fails
  with that failure and sends nothing; when it succeeds, the storage check comes before the
  POST and the POST carries the acquired token, which is the one the user has just typed
  when the stored expiry has passed.
\<close>

theorem callTool_acquires_when_absent:
  "(str_truthy (accessToken w) \<longrightarrow>
      snd (callTool p e n a w) = log_event (Post (accessToken w) n a) w) \<and>
   (\<not> str_truthy (accessToken w) \<and> initializeAuth e w = (Inl err, w1) \<longrightarrow>
      callTool p e n a w = (Inl err, w1) \<and> trace w1 = trace w @ [InitAuth, Prompt]) \<and>
   (\<not> str_truthy (accessToken w) \<and> initializeAuth e w = (Inr (), w2) \<longrightarrow>
      snd (callTool p e n a w) = log_event (Post (accessToken w2) n a) w2 \<and>
      (\<exists>evs. trace w2 = trace w @ InitAuth # evs) \<and>
      (credential_expired (now_check e) w \<longrightarrow>
         (\<exists>ans. prompt_answer e = Some ans \<and> accessToken w2 = Some (trim ans) \<and>
                trace w2 = trace w @ [InitAuth, Prompt])))"
proof (intro conjI impI)
  assume "str_truthy (accessToken w)"
  then show "snd (callTool p e n a w) = log_event (Post (accessToken w) n a) w"
    using callTool_sent [of e w "()" w p n a]
    by (simp add: ensure_auth_held auth_header_truthy)
next
  assume h: "\<not> str_truthy (accessToken w) \<and> initializeAuth e w = (Inl err, w1)"
  then show "callTool p e n a w = (Inl err, w1)"
    by (simp add: callTool_auth_failed ensure_auth_absent)
  from h initializeAuth_Inl [of e w err w1] show "trace w1 = trace w @ [InitAuth, Prompt]"
    by (simp add: log_event_def)
next
  assume h: "\<not> str_truthy (accessToken w) \<and> initializeAuth e w = (Inr (), w2)"
  then have ok: "initializeAuth e w = (Inr (), w2)" by simp
  from initializeAuth_after [OF ok] have "str_truthy (accessToken w2)" by simp
  then have "auth_header w2 = accessToken w2" by (rule auth_header_truthy)
  with h show "snd (callTool p e n a w) = log_event (Post (accessToken w2) n a) w2"
    using callTool_sent [of e w "()" w2 p n a] by (simp add: ensure_auth_absent)
  from initializeAuth_Inr_cases [OF ok] show "\<exists>evs. trace w2 = trace w @ InitAuth # evs"
    by (auto simp add: log_event_def)
next
  assume h: "\<not> str_truthy (accessToken w) \<and> initializeAuth e w = (Inr (), w2)"
    and ex: "credential_expired (now_check e) w"
  then have ok: "initializeAuth e w = (Inr (), w2)" by simp
  from ex have "\<not> stored_valid (now_check e) w" by (rule expired_not_valid)
  with initializeAuth_Inr_cases [OF ok]
  show "\<exists>ans. prompt_answer e = Some ans \<and> accessToken w2 = Some (trim ans) \<and>
                trace w2 = trace w @ [InitAuth, Prompt]"
    by (auto simp add: log_event_def)
qed

text \<open>
  The first call on a fresh page, a call two hours later with the token in memory, and a
  call two hours later after \<^verbatim>\<open>close\<close>, where the user cancels the prompt.
\<close>

theorem callTool_acquires_when_absent_witness:
  "snd (callTool sample_platform env_first ''search'' (search_args ''x'' ''hybrid'') fresh_world) =
     log_event (Post (Some ''tok'') ''search'' (search_args ''x'' ''hybrid'')) world_held \<and>
   trace world_held = trace fresh_world @ [InitAuth, Prompt] \<and>
   snd (callTool sample_platform env_late ''search'' (search_args ''x'' ''hybrid'') world_held) =
     log_event (Post (Some ''tok'') ''search'' (search_args ''x'' ''hybrid'')) world_held \<and>
   callTool sample_platform env_late ''search'' (search_args ''x'' ''hybrid'') (close world_held) =
     (Inl (AuthInitFailure TokenRequired),
      log_event Prompt (log_event InitAuth (close world_held)))"
proof -
  have absent: "\<not> str_truthy (accessToken fresh_world)" "\<not> str_truthy (accessToken (close world_held))"
    by (simp_all add: fresh_world_def close_def)
  have held: "str_truthy (accessToken world_held)" "accessToken world_held = Some ''tok''"
    by (simp_all add: world_held_def)
  have tr: "trace world_held = trace fresh_world @ [InitAuth, Prompt]"
    by (simp add: world_held_def fresh_world_def)
  have late: "initializeAuth env_late (close world_held) =
     (Inl (AuthInitFailure TokenRequired), log_event Prompt (log_event InitAuth (close world_held)))"
  proof -
    have "credential_expired (now_check env_late) (close world_held)"
      using world_held_expired by (simp add: credential_expired_def stored_expiry_def close_def)
    then have "\<not> stored_valid (now_check env_late) (close world_held)"
      by (rule expired_not_valid)
    then show ?thesis by (simp add: initializeAuth_unfold env_late_def)
  qed
  from callTool_acquires_when_absent
         [where w = fresh_world and e = env_first and ?w2.0 = world_held
            and p = sample_platform and n = "''search''" and a = "search_args ''x'' ''hybrid''"]
       absent(1) world_held_reached held(2)
  have a: "snd (callTool sample_platform env_first ''search'' (search_args ''x'' ''hybrid'')
       fresh_world) =
     log_event (Post (Some ''tok'') ''search'' (search_args ''x'' ''hybrid'')) world_held"
    by simp
  from callTool_acquires_when_absent
         [where w = world_held and e = env_late
            and p = sample_platform and n = "''search''" and a = "search_args ''x'' ''hybrid''"]
       held
  have b: "snd (callTool sample_platform env_late ''search'' (search_args ''x'' ''hybrid'')
       world_held) =
     log_event (Post (Some ''tok'') ''search'' (search_args ''x'' ''hybrid'')) world_held"
    by simp
  from callTool_acquires_when_absent
         [where w = "close world_held" and e = env_late
            and err = "AuthInitFailure TokenRequired"
            and ?w1.0 = "log_event Prompt (log_event InitAuth (close world_held))"
            and p = sample_platform and n = "''search''" and a = "search_args ''x'' ''hybrid''"]
       absent(2) late
  have c: "callTool sample_platform env_late ''search'' (search_args ''x'' ''hybrid'')
       (close world_held) =
     (Inl (AuthInitFailure TokenRequired),
      log_event Prompt (log_event InitAuth (close world_held)))"
    by simp
  from a b c tr show ?thesis by simp
qed

section \<open>Testing the connection\<close>

text \<open>
  C6. \<^verbatim>\<open>testConnection\<close> always returns a boolean and never fails. When the trial search
  succeeds it returns \<^verbatim>\<open>true\<close>, also with no results, and sends no GET. When the trial
  search fails it sends the GET of the root and returns whether that succeeded. So it
  returns \<^verbatim>\<open>false\<close> exactly when the search and the GET both fail.
\<close>

theorem testConnection_total:
  "(\<exists>b w'. testConnection p e w = (Inr b, w')) \<and>
   (search p e ''test connection'' ''hybrid'' w = (Inr rs, w1) \<longrightarrow>
      testConnection p e w = (Inr True, w1)) \<and>
   (search p e ''test connection'' ''hybrid'' w = (Inl err, w2) \<longrightarrow>
      testConnection p e w = (Inr (get_ok e), log_event (Get (auth_header w2)) w2)) \<and>
   (fst (testConnection p e w) = Inr False \<longleftrightarrow>
      (\<exists>err'. fst (search p e ''test connection'' ''hybrid'' w) = Inl err') \<and> \<not> get_ok e)"
proof -
  obtain r v where s: "search p e ''test connection'' ''hybrid'' w = (r, v)"
    by (cases "search p e ''test connection'' ''hybrid'' w")
  show ?thesis
  proof (cases r)
    case (Inl x)
    with s show ?thesis by (auto simp add: testConnection_def Let_def)
  next
    case (Inr y)
    with s show ?thesis by (auto simp add: testConnection_def Let_def)
  qed
qed

text \<open>
  The server answers with no results; the server is unreachable and the GET succeeds; the
  server is unreachable and the GET fails.
\<close>

theorem testConnection_total_witness:
  "testConnection sample_platform env_soon world_held =
     (Inr True,
      log_event (Post (Some ''tok'') ''search'' (search_args ''test connection'' ''hybrid''))
        world_held) \<and>
   testConnection sample_platform (env_down True) world_held =
     (Inr True,
      log_event (Get (Some ''tok''))
        (log_event (Post (Some ''tok'') ''search'' (search_args ''test connection'' ''hybrid''))
           world_held)) \<and>
   testConnection sample_platform (env_down False) world_held =
     (Inr False,
      log_event (Get (Some ''tok''))
        (log_event (Post (Some ''tok'') ''search'' (search_args ''test connection'' ''hybrid''))
           world_held))"
proof -
  let ?post = "log_event (Post (Some ''tok'') ''search'' (search_args ''test connection'' ''hybrid''))
        world_held"
  have hdr: "auth_header ?post = Some ''tok''"
    by (simp add: auth_header_def log_event_def world_held_def)
  have "callTool sample_platform env_soon ''search'' (search_args ''test connection'' ''hybrid'')
          world_held = (Inr (JObj [(''results'', JArr [])]), ?post)"
    using world_held_call
            [of env_soon "JObj [(''result'', JObj [(''results'', JArr [])])]" sample_platform
                "''search''" "search_args ''test connection'' ''hybrid''"]
    by (simp add: env_soon_def empty_answer_def read_response_def read_structured_def)
  from search_ok [OF this]
  have up: "search sample_platform env_soon ''test connection'' ''hybrid'' world_held =
          (Inr [], ?post)"
    by (simp add: pick_results_def top_results_def return_results_def length_gt_zero_def)
  have "callTool sample_platform (env_down ping) ''search''
          (search_args ''test connection'' ''hybrid'') world_held =
          (Inl (NetworkFailure (baseUrl world_held)), ?post)" for ping
    using callTool_rejected
            [of "env_down ping" world_held "()" world_held network_down sample_platform
                "''search''" "search_args ''test connection'' ''hybrid''"]
    by (simp add: ensure_auth_world_held auth_header_world_held env_down_def)
       (simp add: axios_failure_def network_down_def startsWith_def log_event_def)
  from search_failed [OF this]
  have down: "search sample_platform (env_down ping) ''test connection'' ''hybrid'' world_held =
          (Inl (NetworkFailure (baseUrl world_held)), ?post)" for ping .
  have ping: "get_ok (env_down ping) = ping" for ping by (simp add: env_down_def)
  from testConnection_total
         [where p = sample_platform and e = env_soon and w = world_held and rs = "[]"
            and ?w1.0 = ?post] up
  have a: "testConnection sample_platform env_soon world_held = (Inr True, ?post)" by blast
  from testConnection_total
         [where p = sample_platform and e = "env_down True" and w = world_held
            and err = "NetworkFailure (baseUrl world_held)" and ?w2.0 = ?post] down [of True]
  have b: "testConnection sample_platform (env_down True) world_held =
         (Inr True, log_event (Get (Some ''tok'')) ?post)"
    by (simp add: ping hdr)
  from testConnection_total
         [where p = sample_platform and e = "env_down False" and w = world_held
            and err = "NetworkFailure (baseUrl world_held)" and ?w2.0 = ?post] down [of False]
  have c: "testConnection sample_platform (env_down False) world_held =
         (Inr False, log_event (Get (Some ''tok'')) ?post)"
    by (simp add: ping hdr)
  from a b c show ?thesis by simp
qed

end
